theory Spec2Isabelle
  imports Complex_Main
begin

section \<open>The numeric arrays of the notebook\<close>

text \<open>
  The notebook computes with numpy arrays of three ranks: scalars, one-dimensional arrays
  and two-dimensional arrays.  Arithmetic is modelled over the real numbers, where the
  notebook computes in IEEE doubles: the theorems below say which formulas the code
  evaluates, on which arrays and in which order it raises; none of them is about rounding,
  overflow, or the sums and quotients of doubles being exact.  A
  one-dimensional array of shape \<open>(n,)\<close> is a list of length \<open>n\<close>; a two-dimensional array
  of shape \<open>(r, c)\<close> is its list of \<open>r\<close> rows together with the column count \<open>c\<close>, which
  numpy keeps also when there is no row.  Every numpy operation that raises on a shape
  mismatch returns an error value here.
\<close>

datatype error =
    ZeroDivisionError
  | DotShapeError
  | BroadcastError
  | ReshapeError nat nat nat
  | InplaceShapeError

type_synonym vector = "real list"

datatype matrix = Matrix (ncols: nat) (rows: "real list list")

definition nrows :: "matrix \<Rightarrow> nat" where
  "nrows m = length (rows m)"

definition at2 :: "matrix \<Rightarrow> nat \<Rightarrow> nat \<Rightarrow> real" where
  "at2 m i j = rows m ! i ! j"

definition wf_matrix :: "matrix \<Rightarrow> bool" where
  "wf_matrix m = list_all (\<lambda>r. length r = ncols m) (rows m)"

text \<open>\<open>m.shape\<close> of a two-dimensional array.\<close>

definition shape2 :: "matrix \<Rightarrow> nat \<times> nat" where
  "shape2 m = (nrows m, ncols m)"

text \<open>Arrays built from their entries.\<close>

definition mk1 :: "nat \<Rightarrow> (nat \<Rightarrow> real) \<Rightarrow> vector" where
  "mk1 n f = map f [0..<n]"

definition mk2 :: "nat \<Rightarrow> nat \<Rightarrow> (nat \<Rightarrow> nat \<Rightarrow> real) \<Rightarrow> matrix" where
  "mk2 r c f = Matrix c (map (\<lambda>i. map (f i) [0..<c]) [0..<r])"

text \<open>Sequencing of operations that may raise.\<close>

definition bind_err :: "error + 'a \<Rightarrow> ('a \<Rightarrow> error + 'b) \<Rightarrow> error + 'b" where
  "bind_err r k = (case r of Inl e \<Rightarrow> Inl e | Inr v \<Rightarrow> k v)"

text \<open>
  \<open>a / b\<close> on Python numbers raises when \<open>b\<close> is zero.  The quotient is the exact one
  here; Python rounds it to a double.
\<close>

definition py_div :: "real \<Rightarrow> real \<Rightarrow> error + real" where
  "py_div a b = (if b = 0 then Inl ZeroDivisionError else Inr (a / b))"

text \<open>\<open>m.T\<close> of a two-dimensional array; on a one-dimensional array \<open>.T\<close> is the identity.\<close>

definition np_T :: "matrix \<Rightarrow> matrix" where
  "np_T m = mk2 (ncols m) (nrows m) (\<lambda>i j. at2 m j i)"

text \<open>\<open>np.dot\<close> at the three rank combinations the notebook uses.\<close>

definition np_dot_mm :: "matrix \<Rightarrow> matrix \<Rightarrow> error + matrix" where
  "np_dot_mm A B =
     (if ncols A \<noteq> nrows B then Inl DotShapeError
      else Inr (mk2 (nrows A) (ncols B) (\<lambda>i j. \<Sum>k<ncols A. at2 A i k * at2 B k j)))"

definition np_dot_mv :: "matrix \<Rightarrow> vector \<Rightarrow> error + vector" where
  "np_dot_mv A v =
     (if ncols A \<noteq> length v then Inl DotShapeError
      else Inr (mk1 (nrows A) (\<lambda>i. \<Sum>k<ncols A. at2 A i k * v ! k)))"

definition np_dot_vv :: "vector \<Rightarrow> vector \<Rightarrow> error + real" where
  "np_dot_vv u v =
     (if length u \<noteq> length v then Inl DotShapeError
      else Inr (\<Sum>k<length u. u ! k * v ! k))"

text \<open>\<open>v.reshape(r, c)\<close> of a one-dimensional array, in row-major order.\<close>

definition np_reshape :: "vector \<Rightarrow> nat \<Rightarrow> nat \<Rightarrow> error + matrix" where
  "np_reshape v r c =
     (if length v \<noteq> r * c then Inl (ReshapeError (length v) r c)
      else Inr (mk2 r c (\<lambda>i j. v ! (i * c + j))))"

definition np_ones :: "nat \<Rightarrow> vector" where
  "np_ones n = replicate n 1"

definition np_sum :: "vector \<Rightarrow> real" where
  "np_sum v = sum_list v"

text \<open>
  Broadcasting of an element-wise binary operation: two extents are compatible when they
  are equal or one of them is 1, and an axis of extent 1 is read at index 0 throughout.
  A one-dimensional operand meeting a two-dimensional one is a single row.
\<close>

definition bc_dim :: "nat \<Rightarrow> nat \<Rightarrow> nat option" where
  "bc_dim a b = (if a = b then Some a else if a = 1 then Some b
                 else if b = 1 then Some a else None)"

definition bc_ix :: "nat \<Rightarrow> nat \<Rightarrow> nat" where
  "bc_ix n i = (if n = 1 then 0 else i)"

definition broadcast_vv :: "(real \<Rightarrow> real \<Rightarrow> real) \<Rightarrow> vector \<Rightarrow> vector \<Rightarrow> error + vector" where
  "broadcast_vv f x y =
     (case bc_dim (length x) (length y) of
        None \<Rightarrow> Inl BroadcastError
      | Some n \<Rightarrow> Inr (mk1 n (\<lambda>i. f (x ! bc_ix (length x) i) (y ! bc_ix (length y) i))))"

definition broadcast_mm :: "(real \<Rightarrow> real \<Rightarrow> real) \<Rightarrow> matrix \<Rightarrow> matrix \<Rightarrow> error + matrix" where
  "broadcast_mm f A B =
     (case bc_dim (nrows A) (nrows B) of
        None \<Rightarrow> Inl BroadcastError
      | Some r \<Rightarrow>
         (case bc_dim (ncols A) (ncols B) of
            None \<Rightarrow> Inl BroadcastError
          | Some c \<Rightarrow>
              Inr (mk2 r c (\<lambda>i j. f (at2 A (bc_ix (nrows A) i) (bc_ix (ncols A) j))
                                      (at2 B (bc_ix (nrows B) i) (bc_ix (ncols B) j))))))"

definition broadcast_mv :: "(real \<Rightarrow> real \<Rightarrow> real) \<Rightarrow> matrix \<Rightarrow> vector \<Rightarrow> error + matrix" where
  "broadcast_mv f A v = broadcast_mm f A (Matrix (length v) [v])"

text \<open>An element-wise unary operation on a two-dimensional array.\<close>

definition map_matrix :: "(real \<Rightarrow> real) \<Rightarrow> matrix \<Rightarrow> matrix" where
  "map_matrix f m = Matrix (ncols m) (map (map f) (rows m))"

text \<open>
  \<open>scipy.special.expit\<close>, imported by the notebook under the name \<open>sigmoid\<close>.  The real
  function stays strictly between 0 and 1; on doubles \<open>expit\<close> returns exactly 1 for
  arguments from about 37 on and exactly 0 for very negative ones, so nothing below is
  stated about predictions that saturate.
\<close>

definition sigmoid :: "real \<Rightarrow> real" where
  "sigmoid x = 1 / (1 + exp (- x))"

section \<open>The parameter store and the notebook's state\<close>

text \<open>
  The dictionary \<open>weights\<close> has the four keys \<open>W1\<close>, \<open>b1\<close>, \<open>W2\<close>, \<open>b2\<close>, in this order;
  the dictionary of gradients returned by \<open>back_propagation\<close> has the same keys and ranks.
  Python passes the dictionary by reference, so a callee could change it: every function
  below takes the state holding the dictionary and returns the state it leaves.  The state
  also holds the list \<open>losses\<close> of the training cell and a counter of the calls of
  \<open>forward_propagation\<close>, which the code does not have and nothing reads.
\<close>

record params =
  W1 :: matrix
  b1 :: vector
  W2 :: vector
  b2 :: real

record state =
  weights :: params
  losses :: "real list"
  forward_calls :: nat

section \<open>Forward propagation\<close>

definition forward_propagation ::
  "matrix \<Rightarrow> state \<Rightarrow> (error + (vector \<times> vector \<times> matrix \<times> matrix)) \<times> state" where
  "forward_propagation X s =
     (bind_err (np_dot_mm X (np_T (W1 (weights s)))) (\<lambda>XW.
      bind_err (broadcast_mv (+) XW (b1 (weights s))) (\<lambda>Z1.
      let H = map_matrix sigmoid Z1 in
      bind_err (np_dot_mv H (W2 (weights s))) (\<lambda>HW.
      let Z2 = map (\<lambda>z. z + b2 (weights s)) HW;
          Y = map sigmoid Z2
      in Inr (Y, Z2, H, Z1)))),
      s\<lparr>forward_calls := forward_calls s + 1\<rparr>)"

section \<open>Back propagation\<close>

text \<open>
  The local variables of \<open>back_propagation\<close>, in the order the body assigns them.  The
  function returns the dictionary of the four gradients and the loss.
\<close>

record bp_locals =
  v_Y :: vector
  v_Z2 :: vector
  v_H :: matrix
  v_Z1 :: matrix
  v_L :: real
  v_dLdY :: vector
  v_dLdZ2 :: vector
  v_dLdW2 :: vector
  v_dLdb2 :: real
  v_dLdH :: matrix
  v_dLdZ1 :: matrix
  v_dLdW1 :: matrix
  v_dLdb1 :: vector

definition back_propagation_body ::
  "matrix \<Rightarrow> vector \<Rightarrow> state \<Rightarrow> (error + bp_locals) \<times> state" where
  "back_propagation_body X Y_T s =
     (let N_points = nrows X in
      case forward_propagation X s of
        (Inl e, s1) \<Rightarrow> (Inl e, s1)
      | (Inr (Y, Z2, H, Z1), s1) \<Rightarrow>
         (bind_err (py_div 1 (real N_points)) (\<lambda>c.
          bind_err (broadcast_vv (*) (map uminus Y_T) (map ln Y)) (\<lambda>t1.
          bind_err (broadcast_vv (*) (map (\<lambda>y. 1 - y) Y_T) (map (\<lambda>y. ln (1 - y)) Y)) (\<lambda>t2.
          bind_err (broadcast_vv (-) t1 t2) (\<lambda>t.
          let L = c * np_sum t in
          bind_err (py_div 1 (real N_points)) (\<lambda>c'.
          bind_err (broadcast_vv (-) Y Y_T) (\<lambda>num.
          bind_err (broadcast_vv (*) Y (map (\<lambda>y. 1 - y) Y)) (\<lambda>den.
          bind_err (broadcast_vv (/) num den) (\<lambda>q.
          let dLdY = map (\<lambda>v. c' * v) q in
          bind_err (broadcast_vv (*) (map sigmoid Z2) (map (\<lambda>z. 1 - sigmoid z) Z2)) (\<lambda>sp2.
          bind_err (broadcast_vv (*) dLdY sp2) (\<lambda>dLdZ2.
          bind_err (np_dot_mv (np_T H) dLdZ2) (\<lambda>dLdW2.
          bind_err (np_dot_vv dLdZ2 (np_ones N_points)) (\<lambda>dLdb2.
          bind_err (np_reshape dLdZ2 N_points 1) (\<lambda>col.
          bind_err (np_reshape (W2 (weights s1)) 1 3) (\<lambda>row.
          bind_err (np_dot_mm col row) (\<lambda>dLdH.
          bind_err (broadcast_mm (*) (map_matrix sigmoid Z1)
                      (map_matrix (\<lambda>z. 1 - sigmoid z) Z1)) (\<lambda>sp1.
          bind_err (broadcast_mm (*) dLdH sp1) (\<lambda>dLdZ1.
          bind_err (np_dot_mm (np_T dLdZ1) X) (\<lambda>dLdW1.
          bind_err (np_dot_mv (np_T dLdZ1) (np_ones N_points)) (\<lambda>dLdb1.
          Inr \<lparr>v_Y = Y, v_Z2 = Z2, v_H = H, v_Z1 = Z1, v_L = L, v_dLdY = dLdY,
               v_dLdZ2 = dLdZ2, v_dLdW2 = dLdW2, v_dLdb2 = dLdb2, v_dLdH = dLdH,
               v_dLdZ1 = dLdZ1, v_dLdW1 = dLdW1, v_dLdb1 = dLdb1\<rparr>))))))))))))))))))),
          s1))"

definition back_propagation ::
  "matrix \<Rightarrow> vector \<Rightarrow> state \<Rightarrow> (error + (params \<times> real)) \<times> state" where
  "back_propagation X Y_T s =
     (case back_propagation_body X Y_T s of
        (Inl e, s1) \<Rightarrow> (Inl e, s1)
      | (Inr l, s1) \<Rightarrow>
          (Inr (\<lparr>W1 = v_dLdW1 l, b1 = v_dLdb1 l, W2 = v_dLdW2 l, b2 = v_dLdb2 l\<rparr>, v_L l),
           s1))"

section \<open>Training by gradient descent\<close>

text \<open>
  \<open>a -= b\<close> on a numpy array writes into \<open>a\<close>: the broadcast of the two shapes must be the
  shape of \<open>a\<close>.  On the scalar \<open>b2\<close> it rebinds the name to the difference.
\<close>

definition isub_matrix :: "matrix \<Rightarrow> matrix \<Rightarrow> error + matrix" where
  "isub_matrix A B =
     bind_err (broadcast_mm (-) A B) (\<lambda>C.
       if nrows C = nrows A \<and> ncols C = ncols A then Inr C else Inl InplaceShapeError)"

definition isub_vector :: "vector \<Rightarrow> vector \<Rightarrow> error + vector" where
  "isub_vector a b =
     bind_err (broadcast_vv (-) a b) (\<lambda>c.
       if length c = length a then Inr c else Inl InplaceShapeError)"

text \<open>
  The inner loop \<open>for weight_name in weights\<close>, over the keys in their order; an update
  that raises leaves the earlier ones done.
\<close>

definition update_weights :: "real \<Rightarrow> params \<Rightarrow> state \<Rightarrow> (error + unit) \<times> state" where
  "update_weights epsilon gradients s =
     (case isub_matrix (W1 (weights s)) (map_matrix (\<lambda>g. epsilon * g) (W1 gradients)) of
        Inl e \<Rightarrow> (Inl e, s)
      | Inr w1 \<Rightarrow>
         (let s1 = s\<lparr>weights := (weights s)\<lparr>W1 := w1\<rparr>\<rparr> in
          case isub_vector (b1 (weights s1)) (map (\<lambda>g. epsilon * g) (b1 gradients)) of
            Inl e \<Rightarrow> (Inl e, s1)
          | Inr v1 \<Rightarrow>
             (let s2 = s1\<lparr>weights := (weights s1)\<lparr>b1 := v1\<rparr>\<rparr> in
              case isub_vector (W2 (weights s2)) (map (\<lambda>g. epsilon * g) (W2 gradients)) of
                Inl e \<Rightarrow> (Inl e, s2)
              | Inr w2 \<Rightarrow>
                 (let s3 = s2\<lparr>weights := (weights s2)\<lparr>W2 := w2\<rparr>\<rparr> in
                  (Inr (),
                   s3\<lparr>weights := (weights s3)\<lparr>b2 := b2 (weights s3) - epsilon * b2 gradients\<rparr>\<rparr>)))))"

text \<open>One pass of the body of \<open>for epoch in range(epochs)\<close>.\<close>

definition train_epoch :: "matrix \<Rightarrow> vector \<Rightarrow> real \<Rightarrow> state \<Rightarrow> (error + unit) \<times> state" where
  "train_epoch X Y_T epsilon s =
     (case back_propagation X Y_T s of
        (Inl e, s1) \<Rightarrow> (Inl e, s1)
      | (Inr (gradients, L), s1) \<Rightarrow>
         (case update_weights epsilon gradients s1 of
            (Inl e, s2) \<Rightarrow> (Inl e, s2)
          | (Inr u, s2) \<Rightarrow> (Inr (), s2\<lparr>losses := losses s2 @ [L]\<rparr>)))"

fun training_loop :: "nat \<Rightarrow> matrix \<Rightarrow> vector \<Rightarrow> real \<Rightarrow> state \<Rightarrow> (error + unit) \<times> state" where
  "training_loop 0 X Y_T epsilon s = (Inr (), s)"
| "training_loop (Suc n) X Y_T epsilon s =
     (case train_epoch X Y_T epsilon s of
        (Inl e, s1) \<Rightarrow> (Inl e, s1)
      | (Inr u, s1) \<Rightarrow> training_loop n X Y_T epsilon s1)"

text \<open>
  The training cell: \<open>losses = []\<close>, then \<open>range(epochs)\<close> passes; \<open>range\<close> of a negative
  number is empty.  The cell also keeps \<open>copy.deepcopy(weights)\<close> under the name
  \<open>initial_weights\<close>; the copy shares nothing with \<open>weights\<close> and the loop never reads it.
\<close>

definition training :: "int \<Rightarrow> real \<Rightarrow> matrix \<Rightarrow> vector \<Rightarrow> state \<Rightarrow> (error + unit) \<times> state" where
  "training epochs epsilon X Y_T s = training_loop (nat epochs) X Y_T epsilon (s\<lparr>losses := []\<rparr>)"

section \<open>The equations of the network, entry by entry\<close>

text \<open>
  The forward pass and the chain-rule stages as the design states them, written for the
  entry at example \<open>n\<close>, hidden unit \<open>i\<close> and input feature \<open>j\<close>.
\<close>

definition sigmoid_prime :: "real \<Rightarrow> real" where
  "sigmoid_prime x = sigmoid x * (1 - sigmoid x)"

definition spec_Z1 :: "matrix \<Rightarrow> params \<Rightarrow> nat \<Rightarrow> nat \<Rightarrow> real" where
  "spec_Z1 X p n i = (\<Sum>j<ncols X. at2 X n j * at2 (W1 p) i j) + b1 p ! i"

definition spec_H :: "matrix \<Rightarrow> params \<Rightarrow> nat \<Rightarrow> nat \<Rightarrow> real" where
  "spec_H X p n i = sigmoid (spec_Z1 X p n i)"

definition spec_Z2 :: "matrix \<Rightarrow> params \<Rightarrow> nat \<Rightarrow> real" where
  "spec_Z2 X p n = (\<Sum>i<nrows (W1 p). spec_H X p n i * W2 p ! i) + b2 p"

definition spec_Y :: "matrix \<Rightarrow> params \<Rightarrow> nat \<Rightarrow> real" where
  "spec_Y X p n = sigmoid (spec_Z2 X p n)"

definition spec_loss :: "matrix \<Rightarrow> vector \<Rightarrow> params \<Rightarrow> real" where
  "spec_loss X Y_T p =
     (1 / real (nrows X)) *
     (\<Sum>n<nrows X. - (Y_T ! n) * ln (spec_Y X p n) - (1 - Y_T ! n) * ln (1 - spec_Y X p n))"

definition spec_dLdY :: "matrix \<Rightarrow> vector \<Rightarrow> params \<Rightarrow> nat \<Rightarrow> real" where
  "spec_dLdY X Y_T p n =
     (1 / real (nrows X)) * ((spec_Y X p n - Y_T ! n) / (spec_Y X p n * (1 - spec_Y X p n)))"

definition spec_dLdZ2 :: "matrix \<Rightarrow> vector \<Rightarrow> params \<Rightarrow> nat \<Rightarrow> real" where
  "spec_dLdZ2 X Y_T p n = spec_dLdY X Y_T p n * sigmoid_prime (spec_Z2 X p n)"

definition spec_dLdW2 :: "matrix \<Rightarrow> vector \<Rightarrow> params \<Rightarrow> nat \<Rightarrow> real" where
  "spec_dLdW2 X Y_T p i = (\<Sum>n<nrows X. spec_H X p n i * spec_dLdZ2 X Y_T p n)"

definition spec_dLdb2 :: "matrix \<Rightarrow> vector \<Rightarrow> params \<Rightarrow> real" where
  "spec_dLdb2 X Y_T p = (\<Sum>n<nrows X. spec_dLdZ2 X Y_T p n)"

definition spec_dLdH :: "matrix \<Rightarrow> vector \<Rightarrow> params \<Rightarrow> nat \<Rightarrow> nat \<Rightarrow> real" where
  "spec_dLdH X Y_T p n i = spec_dLdZ2 X Y_T p n * W2 p ! i"

definition spec_dLdZ1 :: "matrix \<Rightarrow> vector \<Rightarrow> params \<Rightarrow> nat \<Rightarrow> nat \<Rightarrow> real" where
  "spec_dLdZ1 X Y_T p n i = spec_dLdH X Y_T p n i * sigmoid_prime (spec_Z1 X p n i)"

definition spec_dLdW1 :: "matrix \<Rightarrow> vector \<Rightarrow> params \<Rightarrow> nat \<Rightarrow> nat \<Rightarrow> real" where
  "spec_dLdW1 X Y_T p i j = (\<Sum>n<nrows X. spec_dLdZ1 X Y_T p n i * at2 X n j)"

definition spec_dLdb1 :: "matrix \<Rightarrow> vector \<Rightarrow> params \<Rightarrow> nat \<Rightarrow> real" where
  "spec_dLdb1 X Y_T p i = (\<Sum>n<nrows X. spec_dLdZ1 X Y_T p n i)"

text \<open>
  The shapes of the canonical configuration: at least one example, one label per example,
  hidden width 3, and the input width of the batch.
\<close>

definition valid_shapes :: "matrix \<Rightarrow> vector \<Rightarrow> params \<Rightarrow> bool" where
  "valid_shapes X Y_T p =
     (0 < nrows X \<and> length Y_T = nrows X \<and> ncols (W1 p) = ncols X \<and> nrows (W1 p) = 3
      \<and> length (b1 p) = 3 \<and> length (W2 p) = 3)"

text \<open>
  One step of gradient descent as the design states it: every parameter \<open>P\<close> becomes
  \<open>P - \<epsilon> dL/dP\<close>, entry by entry, with the gradients of the chain-rule stages.
\<close>

definition spec_gradients :: "matrix \<Rightarrow> vector \<Rightarrow> params \<Rightarrow> params" where
  "spec_gradients X Y_T p =
     \<lparr>W1 = mk2 3 (ncols X) (spec_dLdW1 X Y_T p), b1 = mk1 3 (spec_dLdb1 X Y_T p),
      W2 = mk1 3 (spec_dLdW2 X Y_T p), b2 = spec_dLdb2 X Y_T p\<rparr>"

definition spec_update :: "real \<Rightarrow> params \<Rightarrow> params \<Rightarrow> params" where
  "spec_update epsilon p g =
     \<lparr>W1 = mk2 (nrows (W1 p)) (ncols (W1 p)) (\<lambda>i j. at2 (W1 p) i j - epsilon * at2 (W1 g) i j),
      b1 = mk1 (length (b1 p)) (\<lambda>i. b1 p ! i - epsilon * b1 g ! i),
      W2 = mk1 (length (W2 p)) (\<lambda>i. W2 p ! i - epsilon * W2 g ! i),
      b2 = b2 p - epsilon * b2 g\<rparr>"

definition spec_step :: "matrix \<Rightarrow> vector \<Rightarrow> real \<Rightarrow> params \<Rightarrow> params" where
  "spec_step X Y_T epsilon p = spec_update epsilon p (spec_gradients X Y_T p)"

section \<open>The clamping policy of the design\<close>

text \<open>
  The design asks for predictions clamped into \<open>[\<epsilon>, 1 - \<epsilon>]\<close> before the loss is taken.
  \<open>clamped_loss\<close> is the loss such a step would give (\<open>np.clip\<close> is the minimum with the
  upper bound of the maximum with the lower bound); the notebook has no such step.
\<close>

definition np_clip :: "real \<Rightarrow> real \<Rightarrow> real \<Rightarrow> real" where
  "np_clip y lo hi = min hi (max lo y)"

definition clamped_loss :: "real \<Rightarrow> matrix \<Rightarrow> vector \<Rightarrow> params \<Rightarrow> real" where
  "clamped_loss eps X Y_T p =
     (1 / real (nrows X)) *
     (\<Sum>n<nrows X. - (Y_T ! n) * ln (np_clip (spec_Y X p n) eps (1 - eps))
                    - (1 - Y_T ! n) * ln (1 - np_clip (spec_Y X p n) eps (1 - eps)))"

section \<open>The concrete scenario of the design\<close>

text \<open>
  The input \<open>X = [[1, 0]]\<close> with all parameters zero, in a state where nothing has run.
\<close>

definition zeros_weights :: params where
  "zeros_weights = \<lparr>W1 = Matrix 2 [[0, 0], [0, 0], [0, 0]], b1 = [0, 0, 0], W2 = [0, 0, 0], b2 = 0\<rparr>"

definition scenario_X :: matrix where
  "scenario_X = Matrix 2 [[1, 0]]"

definition scenario_state :: state where
  "scenario_state = \<lparr>weights = zeros_weights, losses = [], forward_calls = 0\<rparr>"

text \<open>The state with all parameters zero but the output bias \<open>b\<close>.\<close>

definition biased_state :: "real \<Rightarrow> state" where
  "biased_state b = \<lparr>weights = zeros_weights\<lparr>b2 := b\<rparr>, losses = [], forward_calls = 0\<rparr>"

section \<open>Basic facts about the arrays\<close>

lemma length_mk1: "length (mk1 n f) = n"
  by (simp add: mk1_def)

lemma nth_mk1: "i < n \<Longrightarrow> mk1 n f ! i = f i"
  by (simp add: mk1_def)

lemma mk1_cong: "(\<And>i. i < n \<Longrightarrow> f i = g i) \<Longrightarrow> mk1 n f = mk1 n g"
  by (simp add: mk1_def)

lemma nrows_mk2: "nrows (mk2 r c f) = r"
  by (simp add: mk2_def nrows_def)

lemma ncols_mk2: "ncols (mk2 r c f) = c"
  by (simp add: mk2_def)

lemma at2_mk2: "i < r \<Longrightarrow> j < c \<Longrightarrow> at2 (mk2 r c f) i j = f i j"
  by (simp add: mk2_def at2_def)

lemma mk2_cong: "(\<And>i j. i < r \<Longrightarrow> j < c \<Longrightarrow> f i j = g i j) \<Longrightarrow> mk2 r c f = mk2 r c g"
  by (simp add: mk2_def)

lemma wf_mk2: "wf_matrix (mk2 r c f)"
  by (simp add: wf_matrix_def mk2_def list_all_iff)

lemma map_matrix_mk2: "map_matrix h (mk2 r c f) = mk2 r c (\<lambda>i j. h (f i j))"
  by (simp add: map_matrix_def mk2_def)

lemma map_mk1: "map h (mk1 n f) = mk1 n (\<lambda>i. h (f i))"
  by (simp add: mk1_def)

lemma bc_dim_same: "bc_dim a a = Some a"
  by (simp add: bc_dim_def)

lemma bc_dim_one: "bc_dim a (Suc 0) = Some a"
  by (simp add: bc_dim_def)

lemma bc_ix_less: "i < n \<Longrightarrow> bc_ix n i = i"
  by (auto simp: bc_ix_def)

lemma bind_err_Inr: "bind_err (Inr v) k = k v"
  by (simp add: bind_err_def)

lemma bind_err_Inl: "bind_err (Inl e) k = Inl e"
  by (simp add: bind_err_def)

lemma nrows_np_T: "nrows (np_T m) = ncols m"
  by (simp add: np_T_def nrows_mk2)

lemma ncols_np_T: "ncols (np_T m) = nrows m"
  by (simp add: np_T_def ncols_mk2)

lemma at2_np_T: "i < ncols m \<Longrightarrow> j < nrows m \<Longrightarrow> at2 (np_T m) i j = at2 m j i"
  by (simp add: np_T_def at2_mk2)

section \<open>The two passes, entry by entry\<close>

lemma broadcast_vv_eq:
  "length x = length y \<Longrightarrow>
   broadcast_vv f x y = Inr (mk1 (length x) (\<lambda>i. f (x ! i) (y ! i)))"
  by (auto simp: broadcast_vv_def bc_dim_same bc_ix_less intro!: mk1_cong)

lemma broadcast_mm_eq:
  "nrows A = nrows B \<Longrightarrow> ncols A = ncols B \<Longrightarrow>
   broadcast_mm f A B = Inr (mk2 (nrows A) (ncols A) (\<lambda>i j. f (at2 A i j) (at2 B i j)))"
  by (auto simp: broadcast_mm_def bc_dim_same bc_ix_less intro!: mk2_cong)

lemma broadcast_mv_eq:
  "ncols A = length v \<Longrightarrow>
   broadcast_mv f A v = Inr (mk2 (nrows A) (ncols A) (\<lambda>i j. f (at2 A i j) (v ! j)))"
  by (auto simp: broadcast_mv_def broadcast_mm_def bc_dim_same bc_dim_one bc_ix_less nrows_def
      bc_ix_def at2_def intro!: mk2_cong)

lemma np_sum_mk1: "np_sum (mk1 n f) = (\<Sum>i<n. f i)"
  by (simp add: np_sum_def mk1_def interv_sum_list_conv_sum_set_nat atLeast0LessThan)

lemma forward_propagation_eq:
  assumes "ncols (W1 (weights s)) = ncols X"
    and "length (b1 (weights s)) = nrows (W1 (weights s))"
    and "length (W2 (weights s)) = nrows (W1 (weights s))"
  shows "forward_propagation X s =
    (Inr (mk1 (nrows X) (spec_Y X (weights s)),
          mk1 (nrows X) (spec_Z2 X (weights s)),
          mk2 (nrows X) (nrows (W1 (weights s))) (spec_H X (weights s)),
          mk2 (nrows X) (nrows (W1 (weights s))) (spec_Z1 X (weights s))),
     s\<lparr>forward_calls := forward_calls s + 1\<rparr>)"
proof -
  let ?w = "weights s"
  let ?N = "nrows X"
  let ?h = "nrows (W1 ?w)"
  have a: "np_dot_mm X (np_T (W1 ?w)) =
      Inr (mk2 ?N ?h (\<lambda>n i. \<Sum>j<ncols X. at2 X n j * at2 (W1 ?w) i j))"
    using assms(1)
    by (auto simp: np_dot_mm_def nrows_np_T ncols_np_T at2_np_T intro!: mk2_cong sum.cong)
  have b: "broadcast_mv (+) (mk2 ?N ?h (\<lambda>n i. \<Sum>j<ncols X. at2 X n j * at2 (W1 ?w) i j)) (b1 ?w)
      = Inr (mk2 ?N ?h (spec_Z1 X ?w))"
    using assms(2)
    by (auto simp: broadcast_mv_eq ncols_mk2 nrows_mk2 at2_mk2 spec_Z1_def intro!: mk2_cong)
  have c: "map_matrix sigmoid (mk2 ?N ?h (spec_Z1 X ?w)) = mk2 ?N ?h (spec_H X ?w)"
    by (auto simp: map_matrix_mk2 spec_H_def intro!: mk2_cong)
  have d: "np_dot_mv (mk2 ?N ?h (spec_H X ?w)) (W2 ?w) =
      Inr (mk1 ?N (\<lambda>n. \<Sum>i<?h. spec_H X ?w n i * W2 ?w ! i))"
    using assms(3)
    by (auto simp: np_dot_mv_def ncols_mk2 nrows_mk2 at2_mk2 intro!: mk1_cong sum.cong)
  have e: "map (\<lambda>z. z + b2 ?w) (mk1 ?N (\<lambda>n. \<Sum>i<?h. spec_H X ?w n i * W2 ?w ! i))
      = mk1 ?N (spec_Z2 X ?w)"
    by (auto simp: map_mk1 spec_Z2_def intro!: mk1_cong)
  have f: "map sigmoid (mk1 ?N (spec_Z2 X ?w)) = mk1 ?N (spec_Y X ?w)"
    by (auto simp: map_mk1 spec_Y_def intro!: mk1_cong)
  show ?thesis
    unfolding forward_propagation_def Let_def a bind_err_Inr b c d e f by (rule refl)
qed


lemma broadcast_vv_mk1:
  "broadcast_vv f (mk1 n a) (mk1 n b) = Inr (mk1 n (\<lambda>i. f (a i) (b i)))"
  by (auto simp: broadcast_vv_eq length_mk1 nth_mk1 intro!: mk1_cong)

lemma broadcast_mm_mk2:
  "broadcast_mm f (mk2 r c a) (mk2 r c b) = Inr (mk2 r c (\<lambda>i j. f (a i j) (b i j)))"
  by (auto simp: broadcast_mm_eq nrows_mk2 ncols_mk2 at2_mk2 intro!: mk2_cong)

lemma np_T_mk2: "np_T (mk2 r c a) = mk2 c r (\<lambda>i j. a j i)"
  by (auto simp: np_T_def nrows_mk2 ncols_mk2 at2_mk2 intro!: mk2_cong)

lemma np_dot_mv_mk:
  "np_dot_mv (mk2 r c a) (mk1 c v) = Inr (mk1 r (\<lambda>i. \<Sum>k<c. a i k * v k))"
  by (auto simp: np_dot_mv_def nrows_mk2 ncols_mk2 at2_mk2 length_mk1 nth_mk1
      intro!: mk1_cong sum.cong)

lemma np_dot_vv_mk:
  "np_dot_vv (mk1 n a) (mk1 n b) = Inr (\<Sum>k<n. a k * b k)"
  by (auto simp: np_dot_vv_def length_mk1 nth_mk1 intro!: sum.cong)

lemma np_ones_mk1: "np_ones n = mk1 n (\<lambda>i. 1)"
  by (simp add: np_ones_def mk1_def map_replicate_const)

lemma np_reshape_column: "np_reshape (mk1 n a) n (Suc 0) = Inr (mk2 n (Suc 0) (\<lambda>i j. a i))"
  by (auto simp: np_reshape_def length_mk1 nth_mk1 intro!: mk2_cong)

lemma np_reshape_row:
  "length v = c \<Longrightarrow> np_reshape v (Suc 0) c = Inr (mk2 (Suc 0) c (\<lambda>i j. v ! j))"
  by (auto simp: np_reshape_def intro!: mk2_cong)

lemma np_dot_mm_mk2:
  "np_dot_mm (mk2 r k a) (mk2 k c b) = Inr (mk2 r c (\<lambda>i j. \<Sum>q<k. a i q * b q j))"
  by (auto simp: np_dot_mm_def nrows_mk2 ncols_mk2 at2_mk2 intro!: mk2_cong sum.cong)

lemma np_dot_mm_mk2_left:
  "nrows B = k \<Longrightarrow>
   np_dot_mm (mk2 r k a) B = Inr (mk2 r (ncols B) (\<lambda>i j. \<Sum>q<k. a i q * at2 B q j))"
  by (auto simp: np_dot_mm_def nrows_mk2 ncols_mk2 at2_mk2 intro!: mk2_cong sum.cong)

lemma back_propagation_body_mk1:
  assumes X: "0 < nrows X"
    and sh: "ncols (W1 (weights s)) = ncols X"
      "length (b1 (weights s)) = nrows (W1 (weights s))"
      "length (W2 (weights s)) = nrows (W1 (weights s))"
  shows "back_propagation_body X (mk1 (nrows X) t) s =
    (if nrows (W1 (weights s)) = 3 then
       Inr \<lparr>v_Y = mk1 (nrows X) (spec_Y X (weights s)),
          v_Z2 = mk1 (nrows X) (spec_Z2 X (weights s)),
          v_H = mk2 (nrows X) 3 (spec_H X (weights s)),
          v_Z1 = mk2 (nrows X) 3 (spec_Z1 X (weights s)),
          v_L = spec_loss X (mk1 (nrows X) t) (weights s),
          v_dLdY = mk1 (nrows X) (spec_dLdY X (mk1 (nrows X) t) (weights s)),
          v_dLdZ2 = mk1 (nrows X) (spec_dLdZ2 X (mk1 (nrows X) t) (weights s)),
          v_dLdW2 = mk1 3 (spec_dLdW2 X (mk1 (nrows X) t) (weights s)),
          v_dLdb2 = spec_dLdb2 X (mk1 (nrows X) t) (weights s),
          v_dLdH = mk2 (nrows X) 3 (spec_dLdH X (mk1 (nrows X) t) (weights s)),
          v_dLdZ1 = mk2 (nrows X) 3 (spec_dLdZ1 X (mk1 (nrows X) t) (weights s)),
          v_dLdW1 = mk2 3 (ncols X) (spec_dLdW1 X (mk1 (nrows X) t) (weights s)),
          v_dLdb1 = mk1 3 (spec_dLdb1 X (mk1 (nrows X) t) (weights s))\<rparr>
     else Inl (ReshapeError (nrows (W1 (weights s))) 1 3),
     s\<lparr>forward_calls := forward_calls s + 1\<rparr>)"
proof -
  let ?N = "nrows X"
  let ?p = "weights s"
  let ?h = "nrows (W1 ?p)"
  let ?T = "mk1 ?N t"
  let ?Y = "spec_Y X ?p" and ?Z2 = "spec_Z2 X ?p" and ?H = "spec_H X ?p" and ?Z1 = "spec_Z1 X ?p"
  have fwd: "forward_propagation X s =
    (Inr (mk1 ?N ?Y, mk1 ?N ?Z2, mk2 ?N ?h ?H, mk2 ?N ?h ?Z1),
     s\<lparr>forward_calls := forward_calls s + 1\<rparr>)"
    using forward_propagation_eq[of s X] sh by simp
  have ws: "weights (s\<lparr>forward_calls := forward_calls s + 1\<rparr>) = weights s"
    by simp
  have c: "py_div 1 (real ?N) = Inr (1 / real ?N)"
    using X by (simp add: py_div_def)
  have t1: "broadcast_vv (*) (map uminus ?T) (map ln (mk1 ?N ?Y)) =
      Inr (mk1 ?N (\<lambda>n. - t n * ln (?Y n)))"
    by (simp add: map_mk1 broadcast_vv_mk1)
  have t2: "broadcast_vv (*) (map (\<lambda>y. 1 - y) ?T) (map (\<lambda>y. ln (1 - y)) (mk1 ?N ?Y)) =
      Inr (mk1 ?N (\<lambda>n. (1 - t n) * ln (1 - ?Y n)))"
    by (simp add: map_mk1 broadcast_vv_mk1)
  have t: "broadcast_vv (-) (mk1 ?N (\<lambda>n. - t n * ln (?Y n)))
        (mk1 ?N (\<lambda>n. (1 - t n) * ln (1 - ?Y n))) =
      Inr (mk1 ?N (\<lambda>n. - t n * ln (?Y n) - (1 - t n) * ln (1 - ?Y n)))"
    by (simp add: broadcast_vv_mk1)
  have L: "(1 / real ?N) * np_sum (mk1 ?N (\<lambda>n. - t n * ln (?Y n) - (1 - t n) * ln (1 - ?Y n)))
      = spec_loss X ?T ?p"
    unfolding spec_loss_def np_sum_mk1
    by (rule arg_cong[where f = "\<lambda>x. 1 / real (nrows X) * x"], rule sum.cong)
       (simp_all add: nth_mk1)
  have num: "broadcast_vv (-) (mk1 ?N ?Y) ?T = Inr (mk1 ?N (\<lambda>n. ?Y n - t n))"
    by (simp add: broadcast_vv_mk1)
  have den: "broadcast_vv (*) (mk1 ?N ?Y) (map (\<lambda>y. 1 - y) (mk1 ?N ?Y)) =
      Inr (mk1 ?N (\<lambda>n. ?Y n * (1 - ?Y n)))"
    by (simp add: map_mk1 broadcast_vv_mk1)
  have q: "broadcast_vv (/) (mk1 ?N (\<lambda>n. ?Y n - t n)) (mk1 ?N (\<lambda>n. ?Y n * (1 - ?Y n))) =
      Inr (mk1 ?N (\<lambda>n. (?Y n - t n) / (?Y n * (1 - ?Y n))))"
    by (simp add: broadcast_vv_mk1)
  have dLdY: "map (\<lambda>v. 1 / real ?N * v) (mk1 ?N (\<lambda>n. (?Y n - t n) / (?Y n * (1 - ?Y n)))) =
      mk1 ?N (spec_dLdY X ?T ?p)"
    unfolding map_mk1 by (rule mk1_cong) (simp add: spec_dLdY_def nth_mk1)
  have sp2: "broadcast_vv (*) (map sigmoid (mk1 ?N ?Z2)) (map (\<lambda>z. 1 - sigmoid z) (mk1 ?N ?Z2)) =
      Inr (mk1 ?N (\<lambda>n. sigmoid_prime (?Z2 n)))"
    by (simp add: map_mk1 broadcast_vv_mk1 sigmoid_prime_def)
  have dLdZ2: "broadcast_vv (*) (mk1 ?N (spec_dLdY X ?T ?p)) (mk1 ?N (\<lambda>n. sigmoid_prime (?Z2 n))) =
      Inr (mk1 ?N (spec_dLdZ2 X ?T ?p))"
    unfolding broadcast_vv_mk1 by (simp add: spec_dLdZ2_def[abs_def])
  have dLdW2: "np_dot_mv (np_T (mk2 ?N ?h ?H)) (mk1 ?N (spec_dLdZ2 X ?T ?p)) =
      Inr (mk1 ?h (spec_dLdW2 X ?T ?p))"
    unfolding np_T_mk2 np_dot_mv_mk by (simp add: spec_dLdW2_def[abs_def])
  have dLdb2: "np_dot_vv (mk1 ?N (spec_dLdZ2 X ?T ?p)) (np_ones ?N) = Inr (spec_dLdb2 X ?T ?p)"
    unfolding np_ones_mk1 np_dot_vv_mk by (simp add: spec_dLdb2_def)
  have col: "np_reshape (mk1 ?N (spec_dLdZ2 X ?T ?p)) ?N 1 =
      Inr (mk2 ?N 1 (\<lambda>i j. spec_dLdZ2 X ?T ?p i))"
    using np_reshape_column[of ?N] by simp
  note prefix = back_propagation_body_def Let_def fwd prod.case sum.case ws
      c bind_err_Inr t1 t2 t L num den q dLdY sp2 dLdZ2 dLdW2 dLdb2 col
  show ?thesis
  proof (cases "?h = 3")
    case False
    have row: "np_reshape (W2 ?p) 1 3 = Inl (ReshapeError ?h 1 3)"
      using False sh by (simp add: np_reshape_def)
    show ?thesis
      unfolding prefix row bind_err_Inl using False by simp
  next
    case True
    have row: "np_reshape (W2 ?p) 1 3 = Inr (mk2 1 3 (\<lambda>i j. W2 ?p ! j))"
      using np_reshape_row[of "W2 ?p" 3] sh True by simp
    have dLdH: "np_dot_mm (mk2 ?N 1 (\<lambda>i j. spec_dLdZ2 X ?T ?p i)) (mk2 1 3 (\<lambda>i j. W2 ?p ! j)) =
        Inr (mk2 ?N 3 (spec_dLdH X ?T ?p))"
      unfolding np_dot_mm_mk2 by (simp add: spec_dLdH_def[abs_def])
    have sp1: "broadcast_mm (*) (map_matrix sigmoid (mk2 ?N ?h ?Z1))
          (map_matrix (\<lambda>z. 1 - sigmoid z) (mk2 ?N ?h ?Z1)) =
        Inr (mk2 ?N 3 (\<lambda>n i. sigmoid_prime (?Z1 n i)))"
      by (simp add: map_matrix_mk2 broadcast_mm_mk2 sigmoid_prime_def True)
    have dLdZ1: "broadcast_mm (*) (mk2 ?N 3 (spec_dLdH X ?T ?p))
          (mk2 ?N 3 (\<lambda>n i. sigmoid_prime (?Z1 n i))) =
        Inr (mk2 ?N 3 (spec_dLdZ1 X ?T ?p))"
      unfolding broadcast_mm_mk2 by (simp add: spec_dLdZ1_def[abs_def])
    have dLdW1: "np_dot_mm (np_T (mk2 ?N 3 (spec_dLdZ1 X ?T ?p))) X =
        Inr (mk2 3 (ncols X) (spec_dLdW1 X ?T ?p))"
      unfolding np_T_mk2 by (simp add: np_dot_mm_mk2_left spec_dLdW1_def[abs_def])
    have dLdb1: "np_dot_mv (np_T (mk2 ?N 3 (spec_dLdZ1 X ?T ?p))) (np_ones ?N) =
        Inr (mk1 3 (spec_dLdb1 X ?T ?p))"
      unfolding np_T_mk2 np_ones_mk1 np_dot_mv_mk by (simp add: spec_dLdb1_def[abs_def])
    show ?thesis
      unfolding prefix row dLdH sp1 dLdZ1 dLdW1 dLdb1 using True by simp
  qed
qed

lemma back_propagation_body_eq:
  assumes "0 < nrows X" "length Y_T = nrows X"
    and "ncols (W1 (weights s)) = ncols X"
      "length (b1 (weights s)) = nrows (W1 (weights s))"
      "length (W2 (weights s)) = nrows (W1 (weights s))"
  shows "back_propagation_body X Y_T s =
    (if nrows (W1 (weights s)) = 3 then
       Inr \<lparr>v_Y = mk1 (nrows X) (spec_Y X (weights s)),
          v_Z2 = mk1 (nrows X) (spec_Z2 X (weights s)),
          v_H = mk2 (nrows X) 3 (spec_H X (weights s)),
          v_Z1 = mk2 (nrows X) 3 (spec_Z1 X (weights s)),
          v_L = spec_loss X Y_T (weights s),
          v_dLdY = mk1 (nrows X) (spec_dLdY X Y_T (weights s)),
          v_dLdZ2 = mk1 (nrows X) (spec_dLdZ2 X Y_T (weights s)),
          v_dLdW2 = mk1 3 (spec_dLdW2 X Y_T (weights s)),
          v_dLdb2 = spec_dLdb2 X Y_T (weights s),
          v_dLdH = mk2 (nrows X) 3 (spec_dLdH X Y_T (weights s)),
          v_dLdZ1 = mk2 (nrows X) 3 (spec_dLdZ1 X Y_T (weights s)),
          v_dLdW1 = mk2 3 (ncols X) (spec_dLdW1 X Y_T (weights s)),
          v_dLdb1 = mk1 3 (spec_dLdb1 X Y_T (weights s))\<rparr>
     else Inl (ReshapeError (nrows (W1 (weights s))) 1 3),
     s\<lparr>forward_calls := forward_calls s + 1\<rparr>)"
proof -
  have "Y_T = mk1 (nrows X) (\<lambda>n. Y_T ! n)"
    using assms(2) map_nth[of Y_T] by (simp add: mk1_def)
  then show ?thesis
    using back_propagation_body_mk1[OF assms(1) assms(3-5), of "\<lambda>n. Y_T ! n"] by simp
qed

lemma back_propagation_eq:
  assumes "0 < nrows X" "length Y_T = nrows X"
    and "ncols (W1 (weights s)) = ncols X"
      "length (b1 (weights s)) = nrows (W1 (weights s))"
      "length (W2 (weights s)) = nrows (W1 (weights s))"
  shows "back_propagation X Y_T s =
    (if nrows (W1 (weights s)) = 3 then
       Inr (\<lparr>W1 = mk2 3 (ncols X) (spec_dLdW1 X Y_T (weights s)),
             b1 = mk1 3 (spec_dLdb1 X Y_T (weights s)),
             W2 = mk1 3 (spec_dLdW2 X Y_T (weights s)),
             b2 = spec_dLdb2 X Y_T (weights s)\<rparr>,
            spec_loss X Y_T (weights s))
     else Inl (ReshapeError (nrows (W1 (weights s))) 1 3),
     s\<lparr>forward_calls := forward_calls s + 1\<rparr>)"
  unfolding back_propagation_def back_propagation_body_eq[OF assms]
  by simp


section \<open>Effects on the state\<close>

lemma snd_forward_propagation:
  "snd (forward_propagation X s) = s\<lparr>forward_calls := forward_calls s + 1\<rparr>"
  by (simp add: forward_propagation_def)

lemma snd_back_propagation_body:
  "snd (back_propagation_body X Y_T s) = s\<lparr>forward_calls := forward_calls s + 1\<rparr>"
proof -
  obtain r where r: "forward_propagation X s = (r, s\<lparr>forward_calls := forward_calls s + 1\<rparr>)"
    using snd_forward_propagation[of X s] by (cases "forward_propagation X s") simp
  show ?thesis
    unfolding back_propagation_body_def Let_def r
    by (simp split: sum.splits prod.splits)
qed

lemma snd_back_propagation:
  "snd (back_propagation X Y_T s) = s\<lparr>forward_calls := forward_calls s + 1\<rparr>"
  using snd_back_propagation_body[of X Y_T s]
  unfolding back_propagation_def
  by (cases "back_propagation_body X Y_T s") (auto split: sum.splits)

text \<open>
  Claim C7.  One call of \<open>back_propagation\<close> calls \<open>forward_propagation\<close> exactly once,
  whatever the outcome: the state it leaves is the one the single forward pass left.
\<close>

theorem back_propagation_single_forward_pass:
  "forward_calls (snd (back_propagation X Y_T s)) = forward_calls s + 1
   \<and> snd (back_propagation X Y_T s) = snd (forward_propagation X s)"
  by (simp add: snd_back_propagation snd_forward_propagation)

text \<open>
  Claim C9.  \<open>back_propagation\<close> and \<open>forward_propagation\<close> leave the parameters as they
  were, whatever the outcome; over one pass of the training loop the parameters change
  only through the update step that follows the call.
\<close>

theorem back_propagation_keeps_weights:
  "weights (snd (back_propagation X Y_T s)) = weights s
   \<and> weights (snd (forward_propagation X s)) = weights s
   \<and> losses (snd (back_propagation X Y_T s)) = losses s
   \<and> weights (snd (train_epoch X Y_T epsilon s)) =
       (case fst (back_propagation X Y_T s) of
          Inl e \<Rightarrow> weights s
        | Inr (gradients, L) \<Rightarrow>
            weights (snd (update_weights epsilon gradients (snd (back_propagation X Y_T s)))))"
proof -
  obtain r where r: "back_propagation X Y_T s = (r, s\<lparr>forward_calls := forward_calls s + 1\<rparr>)"
    using snd_back_propagation[of X Y_T s] by (cases "back_propagation X Y_T s") simp
  have "weights (snd (train_epoch X Y_T epsilon s)) =
       (case r of
          Inl e \<Rightarrow> weights s
        | Inr (gradients, L) \<Rightarrow>
            weights (snd (update_weights epsilon gradients
              (s\<lparr>forward_calls := forward_calls s + 1\<rparr>))))"
    unfolding train_epoch_def r
    by (simp split: sum.splits prod.splits)
  then show ?thesis
    unfolding r by (simp add: snd_forward_propagation split: sum.splits prod.splits)
qed


section \<open>Correctness of the two passes\<close>

lemma shape2_mk2: "shape2 (mk2 r c f) = (r, c)"
  by (simp add: shape2_def nrows_mk2 ncols_mk2)

text \<open>
  Claim C3.  For an input batch of shape \<open>(N, d)\<close> and parameters of consistent shapes with
  hidden width \<open>h\<close>, \<open>forward_propagation\<close> returns \<open>(Y, Z2, H, Z1)\<close> with
  \<open>Z1 = X W1\<^sup>T + b1\<close> (the bias added to every row), \<open>H = sigmoid(Z1)\<close>,
  \<open>Z2 = H W2\<^sup>T + b2\<close> and \<open>Y = sigmoid(Z2)\<close>; \<open>Y\<close> and \<open>Z2\<close> have length \<open>N\<close>, \<open>H\<close> and
  \<open>Z1\<close> have shape \<open>(N, h)\<close>, and the parameters are left as they were.
\<close>

theorem forward_propagation_spec:
  assumes "ncols (W1 (weights s)) = ncols X"
    and "length (b1 (weights s)) = nrows (W1 (weights s))"
    and "length (W2 (weights s)) = nrows (W1 (weights s))"
  shows "\<exists>Y Z2 H Z1.
      forward_propagation X s = (Inr (Y, Z2, H, Z1), s\<lparr>forward_calls := forward_calls s + 1\<rparr>)
      \<and> Z1 = mk2 (nrows X) (nrows (W1 (weights s))) (spec_Z1 X (weights s))
      \<and> H = mk2 (nrows X) (nrows (W1 (weights s))) (spec_H X (weights s))
      \<and> Z2 = mk1 (nrows X) (spec_Z2 X (weights s))
      \<and> Y = mk1 (nrows X) (spec_Y X (weights s))
      \<and> length Y = nrows X \<and> length Z2 = nrows X
      \<and> shape2 H = (nrows X, nrows (W1 (weights s))) \<and> wf_matrix H
      \<and> shape2 Z1 = (nrows X, nrows (W1 (weights s))) \<and> wf_matrix Z1
      \<and> weights (snd (forward_propagation X s)) = weights s"
  by (simp add: forward_propagation_eq[OF assms] length_mk1 shape2_mk2 wf_mk2)

lemma sigmoid_0: "sigmoid 0 = 1 / 2"
  by (simp add: sigmoid_def)

lemmas eval_arrays = mk1_def mk2_def nrows_def at2_def shape2_def wf_matrix_def
  sum.lessThan_Suc

theorem forward_propagation_spec_witness:
  "forward_propagation (Matrix 1 [[1], [2]])
     \<lparr>weights = \<lparr>W1 = Matrix 1 [[0], [0]], b1 = [0, 0], W2 = [0, 0], b2 = 0\<rparr>,
      losses = [], forward_calls = 0\<rparr> =
   (Inr ([1 / 2, 1 / 2], [0, 0], Matrix 2 [[1 / 2, 1 / 2], [1 / 2, 1 / 2]],
         Matrix 2 [[0, 0], [0, 0]]),
    \<lparr>weights = \<lparr>W1 = Matrix 1 [[0], [0]], b1 = [0, 0], W2 = [0, 0], b2 = 0\<rparr>,
      losses = [], forward_calls = 1\<rparr>)"
  using forward_propagation_spec[of
      "\<lparr>weights = \<lparr>W1 = Matrix 1 [[0], [0]], b1 = [0, 0], W2 = [0, 0], b2 = 0\<rparr>,
        losses = [], forward_calls = 0\<rparr>" "Matrix 1 [[1], [2]]"]
  by (simp add: eval_arrays spec_Y_def spec_Z2_def spec_H_def spec_Z1_def sigmoid_0
      eval_nat_numeral)


text \<open>
  Claim C1.  For a batch of shape \<open>(N, 2)\<close> with \<open>N \<ge> 1\<close>, labels of length \<open>N\<close> and
  parameters of hidden width 3, \<open>back_propagation\<close> returns the gradients of the chain-rule
  stages, computed on the forward trace of \<open>X\<close>, each of the shape of its parameter.
\<close>

theorem back_propagation_chain_rule:
  assumes "0 < nrows X" and "ncols X = 2" and "length Y_T = nrows X"
    and "shape2 (W1 (weights s)) = (3, 2)"
    and "length (b1 (weights s)) = 3" and "length (W2 (weights s)) = 3"
  shows "\<exists>l g L.
      fst (back_propagation_body X Y_T s) = Inr l
      \<and> fst (back_propagation X Y_T s) = Inr (g, L)
      \<and> fst (forward_propagation X s) = Inr (v_Y l, v_Z2 l, v_H l, v_Z1 l)
      \<and> v_dLdY l = mk1 (nrows X) (spec_dLdY X Y_T (weights s))
      \<and> v_dLdZ2 l = mk1 (nrows X) (spec_dLdZ2 X Y_T (weights s))
      \<and> v_dLdH l = mk2 (nrows X) 3 (spec_dLdH X Y_T (weights s))
      \<and> v_dLdZ1 l = mk2 (nrows X) 3 (spec_dLdZ1 X Y_T (weights s))
      \<and> g = \<lparr>W1 = mk2 3 2 (spec_dLdW1 X Y_T (weights s)),
              b1 = mk1 3 (spec_dLdb1 X Y_T (weights s)),
              W2 = mk1 3 (spec_dLdW2 X Y_T (weights s)),
              b2 = spec_dLdb2 X Y_T (weights s)\<rparr>
      \<and> L = spec_loss X Y_T (weights s)
      \<and> shape2 (W1 g) = shape2 (W1 (weights s)) \<and> wf_matrix (W1 g)
      \<and> length (b1 g) = length (b1 (weights s))
      \<and> length (W2 g) = length (W2 (weights s))"
proof -
  have sh: "ncols (W1 (weights s)) = ncols X" "nrows (W1 (weights s)) = 3"
    "length (b1 (weights s)) = nrows (W1 (weights s))"
    "length (W2 (weights s)) = nrows (W1 (weights s))"
    using assms by (simp_all add: shape2_def)
  note body = back_propagation_body_eq[OF assms(1) assms(3) sh(1) sh(3) sh(4)]
  note bp = back_propagation_eq[OF assms(1) assms(3) sh(1) sh(3) sh(4)]
  note fwd = forward_propagation_eq[OF sh(1) sh(3) sh(4)]
  show ?thesis
    unfolding body bp fwd using assms(2,4,5,6) sh(2)
    by (simp add: shape2_mk2 wf_mk2 length_mk1)
qed

theorem back_propagation_chain_rule_witness:
  "fst (back_propagation (Matrix 2 [[1, 0], [0, 1]]) [1, 1] scenario_state) =
     Inr (\<lparr>W1 = Matrix 2 [[0, 0], [0, 0], [0, 0]], b1 = [0, 0, 0],
           W2 = [- (1 / 4), - (1 / 4), - (1 / 4)], b2 = - (1 / 2)\<rparr>, ln 2)"
  using back_propagation_chain_rule[of "Matrix 2 [[1, 0], [0, 1]]" "[1, 1]" scenario_state]
  by (auto simp add: scenario_state_def zeros_weights_def eval_arrays eval_nat_numeral
      spec_loss_def spec_dLdW1_def spec_dLdb1_def spec_dLdW2_def spec_dLdb2_def
      spec_dLdZ1_def spec_dLdH_def spec_dLdZ2_def spec_dLdY_def
      spec_Y_def spec_Z2_def spec_H_def spec_Z1_def sigmoid_0 sigmoid_prime_def ln_div)

text \<open>
  Claim C8.  With shape-consistent parameters of a hidden width other than 3,
  \<open>forward_propagation\<close> succeeds with the documented shapes and \<open>back_propagation\<close> raises
  at \<open>weights['W2'].reshape(1, 3)\<close>, the only reshape to \<open>(1, 3)\<close>.
\<close>

theorem back_propagation_hidden_width:
  assumes "0 < nrows X" and "length Y_T = nrows X"
    and "ncols (W1 (weights s)) = ncols X"
    and "length (b1 (weights s)) = nrows (W1 (weights s))"
    and "length (W2 (weights s)) = nrows (W1 (weights s))"
    and "nrows (W1 (weights s)) \<noteq> 3"
  shows "(\<exists>Y Z2 H Z1. fst (forward_propagation X s) = Inr (Y, Z2, H, Z1)
          \<and> length Y = nrows X \<and> length Z2 = nrows X
          \<and> shape2 H = (nrows X, nrows (W1 (weights s))) \<and> wf_matrix H
          \<and> shape2 Z1 = (nrows X, nrows (W1 (weights s))) \<and> wf_matrix Z1)
      \<and> fst (back_propagation X Y_T s) = Inl (ReshapeError (length (W2 (weights s))) 1 3)"
  unfolding back_propagation_eq[OF assms(1-5)] forward_propagation_eq[OF assms(3-5)]
  using assms(5,6) by (simp add: shape2_mk2 wf_mk2 length_mk1)

theorem back_propagation_hidden_width_witness:
  "fst (back_propagation (Matrix 2 [[1, 0]]) [1]
     \<lparr>weights = \<lparr>W1 = Matrix 2 [[0, 0], [0, 0]], b1 = [0, 0], W2 = [0, 0], b2 = 0\<rparr>,
      losses = [], forward_calls = 0\<rparr>) = Inl (ReshapeError 2 1 3)
   \<and> fst (forward_propagation (Matrix 2 [[1, 0]])
     \<lparr>weights = \<lparr>W1 = Matrix 2 [[0, 0], [0, 0]], b1 = [0, 0], W2 = [0, 0], b2 = 0\<rparr>,
      losses = [], forward_calls = 0\<rparr>) \<noteq> Inl DotShapeError"
  using back_propagation_hidden_width[of "Matrix 2 [[1, 0]]" "[1]"
     "\<lparr>weights = \<lparr>W1 = Matrix 2 [[0, 0], [0, 0]], b1 = [0, 0], W2 = [0, 0], b2 = 0\<rparr>,
      losses = [], forward_calls = 0\<rparr>"]
  by (auto simp add: nrows_def)

section \<open>The concrete scenario, evaluated\<close>

lemma exp_upper_Taylor10:
  fixes x :: real
  assumes "0 \<le> x" "x \<le> 1"
  shows "exp x \<le> (\<Sum>m<10. x ^ m / fact m) + 3 / fact 10 * x ^ 10"
proof -
  obtain t where t: "\<bar>t\<bar> \<le> \<bar>x\<bar>"
    and e: "exp x = (\<Sum>m<10. x ^ m / fact m) + exp t / fact 10 * x ^ 10"
    using Maclaurin_exp_le[of x 10] by blast
  have "exp t \<le> exp 1" using t assms by simp
  then have "exp t \<le> 3" using exp_le by linarith
  then have "exp t / fact 10 * x ^ 10 \<le> 3 / fact 10 * x ^ 10"
    using assms by (intro mult_right_mono divide_right_mono) simp_all
  then show ?thesis using e by linarith
qed

lemma exp_lower_Taylor10:
  fixes x :: real
  assumes "0 \<le> x"
  shows "(\<Sum>m<10. x ^ m / fact m) \<le> exp x"
proof -
  obtain t where e: "exp x = (\<Sum>m<10. x ^ m / fact m) + exp t / fact 10 * x ^ 10"
    using Maclaurin_exp_le[of x 10] by blast
  have "0 \<le> exp t / fact 10 * x ^ 10" using assms by simp
  then show ?thesis using e by linarith
qed

lemma ln2_lower: "(6931465 / 10000000 :: real) < ln 2"
proof -
  have "exp (6931465 / 10000000 :: real) < 2"
    using exp_upper_Taylor10[of "6931465 / 10000000"]
    by (simp add: eval_nat_numeral fact_numeral)
  then have "exp (6931465 / 10000000 :: real) < exp (ln 2)" by simp
  then show ?thesis by (simp only: exp_less_cancel_iff)
qed

lemma ln2_upper: "ln 2 < (6931475 / 10000000 :: real)"
proof -
  have "2 < exp (6931475 / 10000000 :: real)"
    using exp_lower_Taylor10[of "6931475 / 10000000"]
    by (simp add: eval_nat_numeral fact_numeral)
  then have "exp (ln 2) < exp (6931475 / 10000000 :: real)" by simp
  then show ?thesis by (simp only: exp_less_cancel_iff)
qed

lemmas spec_defs = spec_loss_def spec_dLdW1_def spec_dLdb1_def spec_dLdW2_def spec_dLdb2_def
  spec_dLdZ1_def spec_dLdH_def spec_dLdZ2_def spec_dLdY_def
  spec_Y_def spec_Z2_def spec_H_def spec_Z1_def

lemma scenario_body:
  "fst (back_propagation_body scenario_X [1] scenario_state) =
     Inr \<lparr>v_Y = [1 / 2], v_Z2 = [0], v_H = Matrix 3 [[1 / 2, 1 / 2, 1 / 2]],
          v_Z1 = Matrix 3 [[0, 0, 0]], v_L = ln 2, v_dLdY = [- 2], v_dLdZ2 = [- (1 / 2)],
          v_dLdW2 = [- (1 / 4), - (1 / 4), - (1 / 4)], v_dLdb2 = - (1 / 2),
          v_dLdH = Matrix 3 [[0, 0, 0]], v_dLdZ1 = Matrix 3 [[0, 0, 0]],
          v_dLdW1 = Matrix 2 [[0, 0], [0, 0], [0, 0]], v_dLdb1 = [0, 0, 0]\<rparr>"
proof -
  have "back_propagation_body scenario_X [1] scenario_state = 
    (Inr \<lparr>v_Y = [1 / 2], v_Z2 = [0], v_H = Matrix 3 [[1 / 2, 1 / 2, 1 / 2]],
          v_Z1 = Matrix 3 [[0, 0, 0]], v_L = ln 2, v_dLdY = [- 2], v_dLdZ2 = [- (1 / 2)],
          v_dLdW2 = [- (1 / 4), - (1 / 4), - (1 / 4)], v_dLdb2 = - (1 / 2),
          v_dLdH = Matrix 3 [[0, 0, 0]], v_dLdZ1 = Matrix 3 [[0, 0, 0]],
          v_dLdW1 = Matrix 2 [[0, 0], [0, 0], [0, 0]], v_dLdb1 = [0, 0, 0]\<rparr>,
     scenario_state\<lparr>forward_calls := forward_calls scenario_state + 1\<rparr>)"
    by (subst back_propagation_body_eq)
       (simp_all add: scenario_state_def scenario_X_def zeros_weights_def eval_arrays
          eval_nat_numeral spec_defs sigmoid_0 sigmoid_prime_def ln_div)
  then show ?thesis by simp
qed

text \<open>
  Claim C2.  On \<open>X = [[1, 0]]\<close> with all parameters zero, \<open>forward_propagation\<close> returns
  \<open>Z1 = [0, 0, 0]\<close>, \<open>H = [0.5, 0.5, 0.5]\<close>, \<open>Z2 = 0\<close>, \<open>Y = 0.5\<close>; with the label 1 the
  loss is \<open>- log 0.5\<close>, which is 0.693147 to six decimals, \<open>dL/dY = - 2\<close>,
  \<open>sigmoid'(0) = 0.25\<close> and \<open>dL/dZ2 = - 0.5\<close>.
\<close>

theorem scenario_values:
  "fst (forward_propagation scenario_X scenario_state) =
     Inr ([1 / 2], [0], Matrix 3 [[1 / 2, 1 / 2, 1 / 2]], Matrix 3 [[0, 0, 0]])
   \<and> map_sum id v_L (fst (back_propagation_body scenario_X [1] scenario_state)) = Inr (- ln (1 / 2))
   \<and> map_sum id (\<lambda>l. \<bar>v_L l - 693147 / 1000000\<bar> < 5 / 10000000)
       (fst (back_propagation_body scenario_X [1] scenario_state)) = Inr True
   \<and> map_sum id v_dLdY (fst (back_propagation_body scenario_X [1] scenario_state)) = Inr [- 2]
   \<and> ((1 / 2 - 1) / (1 / 2 * (1 / 2)) :: real) = - 2
   \<and> sigmoid_prime 0 = 1 / 4
   \<and> map_sum id v_dLdZ2 (fst (back_propagation_body scenario_X [1] scenario_state)) = Inr [- (1 / 2)]"
proof -
  have fwd: "fst (forward_propagation scenario_X scenario_state) =
     Inr ([1 / 2], [0], Matrix 3 [[1 / 2, 1 / 2, 1 / 2]], Matrix 3 [[0, 0, 0]])"
    by (subst forward_propagation_eq)
       (simp_all add: scenario_state_def scenario_X_def zeros_weights_def eval_arrays
          eval_nat_numeral spec_defs sigmoid_0)
  have approx: "\<bar>ln 2 - 693147 / 1000000\<bar> < (5 / 10000000 :: real)"
    using ln2_lower ln2_upper by linarith
  show ?thesis
    unfolding scenario_body fwd using approx
    by (simp add: sigmoid_prime_def sigmoid_0 ln_div)
qed


section \<open>The training loop\<close>

lemma at2_map_matrix:
  assumes "wf_matrix B" "i < nrows B" "j < ncols B"
  shows "at2 (map_matrix f B) i j = f (at2 B i j)"
proof -
  have "length (rows B ! i) = ncols B"
    using assms(1,2) by (simp add: wf_matrix_def list_all_length nrows_def)
  then show ?thesis
    using assms(2,3) by (simp add: map_matrix_def at2_def nrows_def)
qed

lemma isub_matrix_eq:
  assumes "nrows A = nrows B" "ncols A = ncols B" "wf_matrix B"
  shows "isub_matrix A (map_matrix (\<lambda>g. e * g) B) =
     Inr (mk2 (nrows A) (ncols A) (\<lambda>i j. at2 A i j - e * at2 B i j))"
proof -
  have "broadcast_mm (-) A (map_matrix (\<lambda>g. e * g) B) =
      Inr (mk2 (nrows A) (ncols A) (\<lambda>i j. at2 A i j - at2 (map_matrix (\<lambda>g. e * g) B) i j))"
    using assms by (subst broadcast_mm_eq) (simp_all add: map_matrix_def nrows_def)
  moreover have "mk2 (nrows A) (ncols A) (\<lambda>i j. at2 A i j - at2 (map_matrix (\<lambda>g. e * g) B) i j)
      = mk2 (nrows A) (ncols A) (\<lambda>i j. at2 A i j - e * at2 B i j)"
    using assms by (intro mk2_cong) (simp add: at2_map_matrix)
  ultimately show ?thesis
    by (simp add: isub_matrix_def bind_err_Inr nrows_mk2 ncols_mk2)
qed

lemma isub_vector_eq:
  assumes "length a = length b"
  shows "isub_vector a (map (\<lambda>g. e * g) b) = Inr (mk1 (length a) (\<lambda>i. a ! i - e * b ! i))"
proof -
  have "broadcast_vv (-) a (map (\<lambda>g. e * g) b) =
      Inr (mk1 (length a) (\<lambda>i. a ! i - map (\<lambda>g. e * g) b ! i))"
    using assms by (subst broadcast_vv_eq) simp_all
  moreover have "mk1 (length a) (\<lambda>i. a ! i - map (\<lambda>g. e * g) b ! i) =
      mk1 (length a) (\<lambda>i. a ! i - e * b ! i)"
    using assms by (intro mk1_cong) simp
  ultimately show ?thesis
    by (simp add: isub_vector_def bind_err_Inr length_mk1)
qed

lemma update_weights_eq:
  assumes "shape2 (W1 (weights s)) = shape2 (W1 g)" and "wf_matrix (W1 g)"
    and "length (b1 (weights s)) = length (b1 g)"
    and "length (W2 (weights s)) = length (W2 g)"
  shows "update_weights epsilon g s = (Inr (), s\<lparr>weights := spec_update epsilon (weights s) g\<rparr>)"
  using assms
  by (simp add: update_weights_def Let_def isub_matrix_eq isub_vector_eq shape2_def
      spec_update_def)

lemma train_epoch_eq:
  assumes "valid_shapes X Y_T (weights s)"
  shows "train_epoch X Y_T epsilon s =
    (Inr (), s\<lparr>weights := spec_step X Y_T epsilon (weights s),
               losses := losses s @ [spec_loss X Y_T (weights s)],
               forward_calls := forward_calls s + 1\<rparr>)"
proof -
  have bp: "back_propagation X Y_T s =
      (Inr (spec_gradients X Y_T (weights s), spec_loss X Y_T (weights s)),
       s\<lparr>forward_calls := forward_calls s + 1\<rparr>)"
    using assms
    by (subst back_propagation_eq) (simp_all add: valid_shapes_def spec_gradients_def)
  have up: "update_weights epsilon (spec_gradients X Y_T (weights s))
        (s\<lparr>forward_calls := forward_calls s + 1\<rparr>) =
      (Inr (), s\<lparr>forward_calls := forward_calls s + 1,
                 weights := spec_step X Y_T epsilon (weights s)\<rparr>)"
    using assms
    by (subst update_weights_eq)
       (simp_all add: valid_shapes_def spec_gradients_def shape2_def nrows_mk2 ncols_mk2
          length_mk1 spec_step_def wf_mk2)
  show ?thesis
    unfolding train_epoch_def bp prod.case sum.case up by simp
qed

lemma valid_shapes_step:
  "valid_shapes X Y_T p \<Longrightarrow> valid_shapes X Y_T (spec_step X Y_T epsilon p)"
  by (simp add: valid_shapes_def spec_step_def spec_update_def nrows_mk2 ncols_mk2 length_mk1)

lemma valid_shapes_funpow:
  "valid_shapes X Y_T p \<Longrightarrow> valid_shapes X Y_T ((spec_step X Y_T epsilon ^^ k) p)"
  by (induction k) (simp_all add: valid_shapes_step)

lemma training_loop_eq:
  assumes "valid_shapes X Y_T (weights s)"
  shows "training_loop n X Y_T epsilon s =
    (Inr (), s\<lparr>weights := (spec_step X Y_T epsilon ^^ n) (weights s),
               losses := losses s @
                 map (\<lambda>k. spec_loss X Y_T ((spec_step X Y_T epsilon ^^ k) (weights s))) [0..<n],
               forward_calls := forward_calls s + n\<rparr>)"
  using assms
proof (induction n arbitrary: s)
  case 0
  then show ?case by simp
next
  case (Suc n)
  let ?s1 = "s\<lparr>weights := spec_step X Y_T epsilon (weights s),
               losses := losses s @ [spec_loss X Y_T (weights s)],
               forward_calls := forward_calls s + 1\<rparr>"
  have v1: "valid_shapes X Y_T (weights ?s1)"
    using Suc.prems by (simp add: valid_shapes_step)
  have u: "[0..<Suc n] = 0 # map Suc [0..<n]"
    by (simp only: map_Suc_upt upt_conv_Cons[OF zero_less_Suc])
  have shift: "map (\<lambda>k. spec_loss X Y_T ((spec_step X Y_T epsilon ^^ k) (weights s))) [0..<Suc n]
      = spec_loss X Y_T (weights s) #
        map (\<lambda>k. spec_loss X Y_T ((spec_step X Y_T epsilon ^^ k)
               (spec_step X Y_T epsilon (weights s)))) [0..<n]"
    unfolding u by (simp add: funpow_swap1 del: upt_Suc)
  show ?case
    unfolding training_loop.simps train_epoch_eq[OF Suc.prems] prod.case sum.case
      Suc.IH[OF v1] shift
    by (simp add: funpow_swap1)
qed


text \<open>
  Claim C5.  For a dataset and parameters of the canonical shapes, an epoch count \<open>E \<ge> 0\<close>
  and any learning rate, the training cell runs exactly \<open>E\<close> passes, whatever the losses
  are: each pass calls \<open>back_propagation\<close> once on the whole dataset, replaces every
  parameter \<open>P\<close> by \<open>P - \<epsilon> dL/dP\<close> with the one \<open>\<epsilon>\<close>, and appends the loss; the history ends
  with exactly \<open>E\<close> entries, in iteration order.
\<close>

theorem training_runs_all_epochs:
  assumes "valid_shapes X Y_T (weights s)" and "0 \<le> E"
  shows "fst (training E epsilon X Y_T s) = Inr ()
    \<and> int (length (losses (snd (training E epsilon X Y_T s)))) = E
    \<and> forward_calls (snd (training E epsilon X Y_T s)) = forward_calls s + nat E
    \<and> weights (snd (training E epsilon X Y_T s)) = (spec_step X Y_T epsilon ^^ nat E) (weights s)
    \<and> losses (snd (training E epsilon X Y_T s)) =
        map (\<lambda>k. spec_loss X Y_T ((spec_step X Y_T epsilon ^^ k) (weights s))) [0..<nat E]
    \<and> (\<exists>g L. fst (back_propagation X Y_T s) = Inr (g, L)
          \<and> train_epoch X Y_T epsilon s =
              (Inr (), s\<lparr>weights := spec_update epsilon (weights s) g,
                         losses := losses s @ [L],
                         forward_calls := forward_calls s + 1\<rparr>))"
proof -
  have v: "valid_shapes X Y_T (weights (s\<lparr>losses := []\<rparr>))"
    using assms(1) by simp
  have bp: "back_propagation X Y_T s =
      (Inr (spec_gradients X Y_T (weights s), spec_loss X Y_T (weights s)),
       s\<lparr>forward_calls := forward_calls s + 1\<rparr>)"
    using assms(1)
    by (subst back_propagation_eq) (simp_all add: valid_shapes_def spec_gradients_def)
  show ?thesis
    unfolding training_def training_loop_eq[OF v] train_epoch_eq[OF assms(1)] bp
    using assms(2) by (simp add: spec_step_def)
qed

text \<open>
  Claim C10, as amended.  The entry of the loss history at index \<open>i\<close> is the loss
  \<open>back_propagation\<close> computes on the parameters reached after \<open>i\<close> updates, before the
  update of that pass; the last entry is the loss of the parameters before the final
  update, and the returned parameters are those after it.
\<close>

theorem loss_history_entries:
  assumes "valid_shapes X Y_T (weights s)" and "i < nat E"
  shows "map_sum id snd (fst (back_propagation X Y_T (snd (training (int i) epsilon X Y_T s)))) =
           Inr (losses (snd (training E epsilon X Y_T s)) ! i)
    \<and> weights (snd (training (int i) epsilon X Y_T s)) = (spec_step X Y_T epsilon ^^ i) (weights s)
    \<and> weights (snd (training E epsilon X Y_T s)) = (spec_step X Y_T epsilon ^^ nat E) (weights s)
    \<and> last (losses (snd (training E epsilon X Y_T s))) =
        spec_loss X Y_T ((spec_step X Y_T epsilon ^^ (nat E - 1)) (weights s))"
proof -
  have v: "valid_shapes X Y_T (weights (s\<lparr>losses := []\<rparr>))"
    using assms(1) by simp
  let ?si = "snd (training (int i) epsilon X Y_T s)"
  have wi: "weights ?si = (spec_step X Y_T epsilon ^^ i) (weights s)"
    unfolding training_def training_loop_eq[OF v] by simp
  have vi: "valid_shapes X Y_T (weights ?si)"
    unfolding wi using assms(1) by (rule valid_shapes_funpow)
  have bp: "back_propagation X Y_T ?si =
      (Inr (spec_gradients X Y_T (weights ?si), spec_loss X Y_T (weights ?si)),
       ?si\<lparr>forward_calls := forward_calls ?si + 1\<rparr>)"
    using vi
    by (subst back_propagation_eq) (simp_all add: valid_shapes_def spec_gradients_def)
  have E: "[0..<nat E] \<noteq> []" using assms(2) by simp
  have "last (map (\<lambda>k. spec_loss X Y_T ((spec_step X Y_T epsilon ^^ k) (weights s))) [0..<nat E])
      = spec_loss X Y_T ((spec_step X Y_T epsilon ^^ (nat E - 1)) (weights s))"
    using assms(2) by (simp add: last_map[OF E] last_upt)
  then show ?thesis
    unfolding bp unfolding wi
    unfolding training_def training_loop_eq[OF v]
    using assms(2) by simp
qed


theorem training_runs_all_epochs_witness:
  "fst (training 2 1 scenario_X [1] scenario_state) = Inr ()
   \<and> length (losses (snd (training 2 1 scenario_X [1] scenario_state))) = 2
   \<and> forward_calls (snd (training 2 1 scenario_X [1] scenario_state)) = 2"
  using training_runs_all_epochs[of scenario_X "[1]" scenario_state 2 1]
  by (simp add: valid_shapes_def scenario_X_def scenario_state_def zeros_weights_def nrows_def)

theorem loss_history_entries_witness:
  "map_sum id snd (fst (back_propagation scenario_X [1]
       (snd (training 1 1 scenario_X [1] scenario_state)))) =
     Inr (losses (snd (training 2 1 scenario_X [1] scenario_state)) ! 1)"
  using loss_history_entries[of scenario_X "[1]" scenario_state 1 2 1]
  by (simp add: valid_shapes_def scenario_X_def scenario_state_def zeros_weights_def nrows_def)

lemma stationary_step:
  "spec_step (Matrix 2 [[0, 0], [0, 0]]) [0, 1] 1 zeros_weights = zeros_weights"
  by (simp add: spec_step_def spec_update_def spec_gradients_def zeros_weights_def
      eval_arrays eval_nat_numeral spec_defs sigmoid_0 sigmoid_prime_def)

lemma stationary_loss:
  "spec_loss (Matrix 2 [[0, 0], [0, 0]]) [0, 1] zeros_weights = ln 2"
  by (simp add: zeros_weights_def eval_arrays eval_nat_numeral spec_defs sigmoid_0 ln_div)

text \<open>
  Against claim C10 as stated: with two equal examples labelled 0 and 1 and all
  parameters zero every gradient is zero, the update changes nothing, and the last entry
  of the history is the loss of the returned parameters.
\<close>

theorem last_loss_at_stationary_point:
  "fst (training 1 1 (Matrix 2 [[0, 0], [0, 0]]) [0, 1] scenario_state) = Inr ()
   \<and> weights (snd (training 1 1 (Matrix 2 [[0, 0], [0, 0]]) [0, 1] scenario_state)) = zeros_weights
   \<and> map_sum id snd (fst (back_propagation (Matrix 2 [[0, 0], [0, 0]]) [0, 1]
         (snd (training 1 1 (Matrix 2 [[0, 0], [0, 0]]) [0, 1] scenario_state)))) =
       Inr (last (losses (snd (training 1 1 (Matrix 2 [[0, 0], [0, 0]]) [0, 1] scenario_state))))"
proof -
  let ?X = "Matrix 2 [[0, 0], [0, 0]]" and ?T = "[0, 1] :: real list"
  have v: "valid_shapes ?X ?T (weights (scenario_state\<lparr>losses := []\<rparr>))"
    by (simp add: valid_shapes_def scenario_state_def zeros_weights_def nrows_def)
  have tr: "training 1 1 ?X ?T scenario_state =
      (Inr (), \<lparr>weights = zeros_weights, losses = [ln 2], forward_calls = 1\<rparr>)"
    unfolding training_def training_loop_eq[OF v]
    by (simp add: scenario_state_def stationary_step stationary_loss)
  have bp: "back_propagation ?X ?T
        \<lparr>weights = zeros_weights, losses = [ln 2], forward_calls = Suc 0\<rparr>
      = (Inr (spec_gradients ?X ?T zeros_weights, ln 2),
         \<lparr>weights = zeros_weights, losses = [ln 2], forward_calls = Suc 0 + 1\<rparr>)"
    by (subst back_propagation_eq)
       (simp_all add: zeros_weights_def nrows_def spec_gradients_def
          stationary_loss[unfolded zeros_weights_def])
  show ?thesis
    unfolding tr by (simp add: bp)
qed


section \<open>No clamping of the predictions\<close>

text \<open>
  Claim C4, as amended.  \<open>back_propagation\<close> applies no clamping: the loss and \<open>dL/dY\<close>
  are computed on the output \<open>Y\<close> of the forward pass as it is, the logarithms taken of
  \<open>Y\<close> and \<open>1 - Y\<close> and the division made by \<open>Y (1 - Y)\<close>.
\<close>

theorem loss_on_unclamped_predictions:
  assumes "valid_shapes X Y_T (weights s)"
  shows "\<exists>l. fst (back_propagation_body X Y_T s) = Inr l
     \<and> fst (forward_propagation X s) = Inr (v_Y l, v_Z2 l, v_H l, v_Z1 l)
     \<and> v_L l = (1 / real (nrows X)) *
         (\<Sum>n<nrows X. - (Y_T ! n) * ln (v_Y l ! n) - (1 - Y_T ! n) * ln (1 - v_Y l ! n))
     \<and> v_dLdY l = mk1 (nrows X)
         (\<lambda>n. (1 / real (nrows X)) * ((v_Y l ! n - Y_T ! n) / (v_Y l ! n * (1 - v_Y l ! n))))"
proof -
  have sh: "0 < nrows X" "length Y_T = nrows X" "ncols (W1 (weights s)) = ncols X"
    "length (b1 (weights s)) = nrows (W1 (weights s))"
    "length (W2 (weights s)) = nrows (W1 (weights s))" "nrows (W1 (weights s)) = 3"
    using assms by (simp_all add: valid_shapes_def)
  have L: "spec_loss X Y_T (weights s) = (1 / real (nrows X)) *
      (\<Sum>n<nrows X. - (Y_T ! n) * ln (mk1 (nrows X) (spec_Y X (weights s)) ! n)
          - (1 - Y_T ! n) * ln (1 - mk1 (nrows X) (spec_Y X (weights s)) ! n))"
    unfolding spec_loss_def
    by (rule arg_cong[where f = "\<lambda>x. 1 / real (nrows X) * x"], rule sum.cong)
       (simp_all add: nth_mk1)
  have D: "mk1 (nrows X) (spec_dLdY X Y_T (weights s)) = mk1 (nrows X)
      (\<lambda>n. (1 / real (nrows X)) * ((mk1 (nrows X) (spec_Y X (weights s)) ! n - Y_T ! n) /
         (mk1 (nrows X) (spec_Y X (weights s)) ! n *
           (1 - mk1 (nrows X) (spec_Y X (weights s)) ! n))))"
    by (rule mk1_cong) (simp add: spec_dLdY_def nth_mk1)
  show ?thesis
    unfolding back_propagation_body_eq[OF sh(1-5)] forward_propagation_eq[OF sh(3-5)]
    using sh(6) L D by simp
qed

theorem loss_on_unclamped_predictions_witness:
  "\<exists>l. fst (back_propagation_body scenario_X [1] scenario_state) = Inr l
     \<and> fst (forward_propagation scenario_X scenario_state) = Inr (v_Y l, v_Z2 l, v_H l, v_Z1 l)
     \<and> v_L l = (1 / real (nrows scenario_X)) *
         (\<Sum>n<nrows scenario_X. - ([1] ! n) * ln (v_Y l ! n) - (1 - [1] ! n) * ln (1 - v_Y l ! n))
     \<and> v_dLdY l = mk1 (nrows scenario_X)
         (\<lambda>n. (1 / real (nrows scenario_X)) *
            ((v_Y l ! n - [1] ! n) / (v_Y l ! n * (1 - v_Y l ! n))))"
  by (rule loss_on_unclamped_predictions)
     (simp add: valid_shapes_def scenario_X_def scenario_state_def zeros_weights_def nrows_def)

text \<open>
  Against claim C4 as stated: for no \<open>\<epsilon>\<close> with \<open>0 < \<epsilon> \<le> 1/2\<close> is the loss of
  \<open>back_propagation\<close> the loss of the clamped predictions; an output bias of \<open>ln \<epsilon>\<close> gives
  a prediction below \<open>\<epsilon>\<close>.
\<close>

theorem loss_not_clamped:
  "\<not> (\<exists>eps. 0 < eps \<and> eps \<le> 1 / 2 \<and>
        (\<forall>b. map_sum id v_L (fst (back_propagation_body (Matrix 2 [[0, 0]]) [1] (biased_state b))) =
             Inr (clamped_loss eps (Matrix 2 [[0, 0]]) [1] (weights (biased_state b)))))"
proof
  let ?X = "Matrix 2 [[0, 0]]" and ?T = "[1] :: real list"
  assume "\<exists>eps. 0 < eps \<and> eps \<le> 1 / 2 \<and>
        (\<forall>b. map_sum id v_L (fst (back_propagation_body ?X ?T (biased_state b))) =
             Inr (clamped_loss eps ?X ?T (weights (biased_state b))))"
  then obtain eps where eps: "0 < eps" "eps \<le> 1 / 2"
    and eq: "\<And>b. map_sum id v_L (fst (back_propagation_body ?X ?T (biased_state b))) =
             Inr (clamped_loss eps ?X ?T (weights (biased_state b)))"
    by blast
  define b where "b = ln eps"
  have Y: "spec_Y ?X (weights (biased_state b)) 0 = sigmoid b"
    by (simp add: biased_state_def zeros_weights_def spec_Y_def spec_Z2_def nrows_def
        eval_nat_numeral sum.lessThan_Suc)
  have sb: "sigmoid b = eps / (1 + eps)"
    using eps(1) by (simp add: sigmoid_def b_def exp_minus field_simps)
  have lt: "sigmoid b < eps"
    unfolding sb using eps(1) by (simp add: field_simps)
  have clip: "np_clip (sigmoid b) eps (1 - eps) = eps"
    using lt eps by (simp add: np_clip_def)
  have body: "map_sum id v_L (fst (back_propagation_body ?X ?T (biased_state b))) =
      Inr (spec_loss ?X ?T (weights (biased_state b)))"
    by (subst back_propagation_body_eq)
       (simp_all add: biased_state_def zeros_weights_def nrows_def)
  have "spec_loss ?X ?T (weights (biased_state b)) = clamped_loss eps ?X ?T (weights (biased_state b))"
    using eq[of b] unfolding body by simp
  then have "ln (sigmoid b) = ln eps"
    by (simp add: spec_loss_def clamped_loss_def nrows_def Y clip)
  moreover have "0 < sigmoid b"
    unfolding sb using eps(1) by simp
  ultimately have "sigmoid b = eps"
    using eps(1) by simp
  then show False using lt by simp
qed

end
